theory Spec2Isabelle
  imports Complex_Main
begin

section \<open>Configuration constants of \<^verbatim>\<open>app.py\<close>\<close>

text \<open>
  The module-level constants, with the values of the source. Python floats are modelled
  as the real numbers they denote; NaN and the infinities are left out.
  The colours are BGR triples; \<open>FONT\<close> and \<open>LINE_AA\<close> are the values of
  OpenCV's enumerators \<^verbatim>\<open>FONT_HERSHEY_SCRIPT_COMPLEX\<close> and \<^verbatim>\<open>LINE_AA\<close>.
\<close>

definition VIDEO_WIDTH :: int where "VIDEO_WIDTH = 1080"
definition VIDEO_HEIGHT :: int where "VIDEO_HEIGHT = 1920"
definition FPS :: nat where "FPS = 24"

type_synonym color = "nat \<times> nat \<times> nat"

definition FONT :: nat where "FONT = 7"
definition FONT_SIZE :: real where "FONT_SIZE = 5 / 2"
definition FONT_COLOR :: color where "FONT_COLOR = (255, 255, 255)"
definition FONT_THICKNESS :: int where "FONT_THICKNESS = 3"
definition SHADOW_COLOR :: color where "SHADOW_COLOR = (0, 0, 0)"
definition SHADOW_THICKNESS :: int where "SHADOW_THICKNESS = 6"
definition LINE_AA :: nat where "LINE_AA = 16"

section \<open>The subtitle renderer\<close>

subsection \<open>Word-timing records and the drawing library\<close>

text \<open>
  A word-timing record is the dictionary \<^verbatim>\<open>{'word': .., 'start': .., 'end': ..}\<close> built by
  \<^verbatim>\<open>get_word_timestamps\<close>. (\<open>end\<close> is a keyword of Isabelle, hence \<open>end'\<close>.)
\<close>

record word_timing =
  word :: string
  start :: real
  end' :: real

text \<open>
  The two OpenCV functions the renderer calls are library code, not code of the
  repository: they are parameters of the model. A frame is a value of an arbitrary type
  \<open>'f\<close>. \<open>getTextSize text font scale thickness\<close> returns the pair
  \<open>((width, height), baseline)\<close>; \<open>putText frame text org font scale color thickness
  line_type\<close> returns the frame with the text drawn (the Python call draws in place on
  the frame just read).
\<close>

record 'f cv2 =
  getTextSize :: "string \<Rightarrow> nat \<Rightarrow> real \<Rightarrow> int \<Rightarrow> (int \<times> int) \<times> int"
  putText :: "'f \<Rightarrow> string \<Rightarrow> int \<times> int \<Rightarrow> nat \<Rightarrow> real \<Rightarrow> color \<Rightarrow> int \<Rightarrow> nat \<Rightarrow> 'f"


subsection \<open>\<^verbatim>\<open>draw_subtitles_on_video\<close>, lines 77 to 94\<close>

text \<open>The test of line 84: \<^verbatim>\<open>word['start'] <= current_time < word['end']\<close>.\<close>

definition in_interval :: "word_timing \<Rightarrow> real \<Rightarrow> bool" where
  "in_interval w current_time = (start w \<le> current_time \<and> current_time < end' w)"

text \<open>
  Lines 82 to 86: \<^verbatim>\<open>active_word = None\<close>, then the \<^verbatim>\<open>for\<close> loop over the sequence
  that assigns the word of the first record whose test succeeds and breaks.
\<close>

fun find_active_word :: "word_timing list \<Rightarrow> real \<Rightarrow> string option" where
  "find_active_word [] current_time = None"
| "find_active_word (w # ws) current_time =
     (if in_interval w current_time then Some (word w)
      else find_active_word ws current_time)"

text \<open>
  Line 81: \<^verbatim>\<open>current_time = frame_count / FPS\<close> (true division). The quotient is exact
  here, where the source has the float nearest to it; the scan and the rendering are
  defined for any timestamp, and nothing below depends on how the quotient is rounded
  other than through the value of \<open>current_time_of\<close>.
\<close>

definition current_time_of :: "nat \<Rightarrow> real" where
  "current_time_of frame_count = of_nat frame_count / of_nat FPS"

text \<open>Lines 88 to 92, the body of \<^verbatim>\<open>if active_word:\<close>. \<^verbatim>\<open>//\<close> is floor division.\<close>

definition text_origin :: "int \<times> int \<Rightarrow> int \<times> int" where
  "text_origin text_size =
     ((VIDEO_WIDTH - fst text_size) div 2, (VIDEO_HEIGHT + snd text_size) div 2)"

definition draw_word :: "'f cv2 \<Rightarrow> string \<Rightarrow> 'f \<Rightarrow> 'f" where
  "draw_word cv active_word frame =
     (let text_size = fst (getTextSize cv active_word FONT FONT_SIZE FONT_THICKNESS);
          org = text_origin text_size;
          frame1 = putText cv frame active_word org FONT FONT_SIZE
                     SHADOW_COLOR SHADOW_THICKNESS LINE_AA
      in putText cv frame1 active_word org FONT FONT_SIZE FONT_COLOR FONT_THICKNESS LINE_AA)"

text \<open>
  Lines 81 to 93 for one frame. \<^verbatim>\<open>if active_word:\<close> is Python's truth test: \<^verbatim>\<open>None\<close>
  and the empty string are both false.
\<close>

definition render_frame :: "'f cv2 \<Rightarrow> word_timing list \<Rightarrow> nat \<Rightarrow> 'f \<Rightarrow> 'f" where
  "render_frame cv word_timestamps frame_count frame =
     (case find_active_word word_timestamps (current_time_of frame_count) of
        None \<Rightarrow> frame
      | Some active_word \<Rightarrow>
          if active_word \<noteq> [] then draw_word cv active_word frame else frame)"

text \<open>
  The \<^verbatim>\<open>while\<close> loop: the frames still to be read from the capture, the counter
  \<^verbatim>\<open>frame_count\<close>, and the frames handed to the writer, in order. The loop ends when
  \<^verbatim>\<open>read\<close> has no frame left.
\<close>

fun draw_subtitles_loop :: "'f cv2 \<Rightarrow> word_timing list \<Rightarrow> nat \<Rightarrow> 'f list \<Rightarrow> 'f list" where
  "draw_subtitles_loop cv word_timestamps frame_count [] = []"
| "draw_subtitles_loop cv word_timestamps frame_count (frame # rest) =
     render_frame cv word_timestamps frame_count frame
       # draw_subtitles_loop cv word_timestamps (frame_count + 1) rest"

subsection \<open>An instance of the drawing library\<close>

text \<open>
  To run the renderer on concrete inputs, a small instance of the library interface: a
  frame is the list of the glyphs drawn on it so far, each with its position, colour and
  thickness; \<open>putText\<close> adds one glyph for each character of the text.
\<close>

type_synonym glyph = "char \<times> (int \<times> int) \<times> color \<times> int"

definition glyph_cv2 :: "glyph list cv2" where
  "glyph_cv2 =
     \<lparr> getTextSize = (\<lambda>text font scale thickness. ((40 * int (length text), 50), 20)),
       putText = (\<lambda>frame text org font scale color thickness line_type.
                    frame @ map (\<lambda>c. (c, org, color, thickness)) text) \<rparr>"

section \<open>The pipeline\<close>

subsection \<open>More constants\<close>

text \<open>
  \<open>ELEVENLABS_API_KEY\<close> is the value the source ships with; the user is asked to
  replace it, so the functions that read it take the configured key as an argument.
\<close>

definition ELEVENLABS_API_KEY :: string where "ELEVENLABS_API_KEY = ''ELEVEN_LABS_API_KEY''"
definition INPUT_TEXT_FILE :: string where "INPUT_TEXT_FILE = ''script.txt''"
definition INPUT_BACKGROUND_FILE :: string where "INPUT_BACKGROUND_FILE = ''background.jpg''"
definition OUTPUT_VIDEO_FILE :: string where "OUTPUT_VIDEO_FILE = ''final_short.mp4''"
definition TEMP_SILENT_VIDEO_FILE :: string where "TEMP_SILENT_VIDEO_FILE = ''temp_silent_video.mp4''"
definition TEMP_SUBTITLED_VIDEO_FILE :: string where
  "TEMP_SUBTITLED_VIDEO_FILE = ''temp_subtitled_video.mp4''"
definition VOICE_NAME :: string where "VOICE_NAME = ''Jessica''"

subsection \<open>Results, messages and the world\<close>

text \<open>
  A call returns, raises an exception that nothing has caught yet, or leaves through
  \<^verbatim>\<open>sys.exit\<close>. \<^verbatim>\<open>sys.exit(1)\<close> ends the process with status 1;
  \<^verbatim>\<open>sys.exit("...")\<close> prints the string on standard error and ends it with status 1 as
  well. An exception that reaches the top ends the process with status 1; returning from
  \<^verbatim>\<open>main\<close> ends it with status 0.
\<close>

datatype exn = FileNotFoundError string | ZeroDivisionError | LibraryError string

datatype exit_arg = ExitCode int | ExitMessage string

datatype 'a result = Returns 'a | Raises exn | SysExit exit_arg


text \<open>
  One constructor for each \<^verbatim>\<open>print\<close> of the source, with the values it interpolates
  (the texts themselves hold characters outside ASCII).
\<close>

datatype message =
    Starting
  | Generating_narration
  | Narration_error exn
  | Creating_silent_video
  | Silent_video_created
  | Generating_timestamps
  | Found_words nat
  | Drawing_subtitles
  | Subtitles_drawn
  | Combining
  | Combined
  | Cleaning_up
  | Video_ready string

text \<open>
  The files of the working directory, by name. A video file holds its frames and, when
  it has one, its audio track. The file system is idealised: writing a file always
  succeeds, and the only failure of reading is a file that is missing or of another
  kind. \<open>requests\<close> counts the requests sent to the speech service so far.
\<close>

datatype 'f content =
    Text string
  | Bytes "nat list"
  | Image "nat \<times> nat" "nat list"
  | Video "'f list" "nat list option"

record 'f world =
  files :: "string \<Rightarrow> 'f content option"
  stdout :: "message list"
  requests :: nat

definition print :: "message \<Rightarrow> 'f world \<Rightarrow> 'f world" where
  "print m w = w\<lparr>stdout := stdout w @ [m]\<rparr>"

definition write_file :: "string \<Rightarrow> 'f content \<Rightarrow> 'f world \<Rightarrow> 'f world" where
  "write_file path c w = w\<lparr>files := (files w)(path \<mapsto> c)\<rparr>"

text \<open>Sequencing: the next statement runs only when the previous one returned.\<close>

definition and_then ::
  "'a result \<times> 'w \<Rightarrow> ('a \<Rightarrow> 'w \<Rightarrow> 'b result \<times> 'w) \<Rightarrow> 'b result \<times> 'w" where
  "and_then m f =
     (case m of
        (Returns x, w) \<Rightarrow> f x w
      | (Raises e, w) \<Rightarrow> (Raises e, w)
      | (SysExit a, w) \<Rightarrow> (SysExit a, w))"

subsection \<open>The libraries\<close>

text \<open>
  The crop requested from moviepy: the keyword arguments of line 54
  (\<^verbatim>\<open>x_center\<close>, \<^verbatim>\<open>width\<close>) or of line 56 (\<^verbatim>\<open>y_center\<close>, \<^verbatim>\<open>height\<close>).
\<close>

datatype crop = Crop_x real int | Crop_y real int

text \<open>
  What the program asks of its libraries, as parameters of the model:
  \<^item> \<open>generate n key text voice model\<close>: the answer of \<^verbatim>\<open>elevenlabs.generate\<close> to the
    request number \<open>n\<close>, the audio or the exception it raises (an instance of
    \<^verbatim>\<open>Exception\<close>);
  \<^item> \<open>audio_duration\<close>: \<^verbatim>\<open>AudioFileClip(path).duration\<close> from the bytes of the file;
  \<^item> \<open>still_frames pixels dims crop out_size duration\<close>: the frames that
    \<^verbatim>\<open>write_videofile\<close> encodes for the cropped and resized still image;
  \<^item> \<open>transcribe\<close>: loading the model and transcribing, the segments with their words
    \<open>(word, start, end)\<close>;
  \<^item> \<open>encode_final frames audio\<close>: the frames \<^verbatim>\<open>write_videofile\<close> encodes for the
    final video;
  \<^item> \<open>opencv\<close>: the two OpenCV drawing functions.
\<close>

record 'f libs =
  opencv :: "'f cv2"
  generate :: "nat \<Rightarrow> string \<Rightarrow> string \<Rightarrow> string \<Rightarrow> string \<Rightarrow> exn + nat list"
  audio_duration :: "nat list \<Rightarrow> exn + real"
  still_frames :: "nat list \<Rightarrow> nat \<times> nat \<Rightarrow> crop \<Rightarrow> nat \<times> nat \<Rightarrow> real \<Rightarrow> exn + 'f list"
  transcribe :: "nat list \<Rightarrow> exn + (string \<times> real \<times> real) list list"
  encode_final :: "'f list \<Rightarrow> nat list \<Rightarrow> exn + 'f list"

subsection \<open>\<^verbatim>\<open>generate_narration\<close>, lines 36 to 44\<close>

text \<open>
  The \<^verbatim>\<open>try\<close> block sets the key, sends one request and writes the audio to the output
  path; the handler of \<^verbatim>\<open>except Exception\<close> prints the error and calls
  \<^verbatim>\<open>sys.exit(1)\<close>.
\<close>

definition generate_narration ::
  "string \<Rightarrow> 'f libs \<Rightarrow> string \<Rightarrow> string \<Rightarrow> 'f world \<Rightarrow> string result \<times> 'f world" where
  "generate_narration api_key lib text output_path w0 =
     (let w1 = print Generating_narration w0;
          w2 = w1\<lparr>requests := requests w1 + 1\<rparr>
      in case generate lib (requests w1) api_key text VOICE_NAME ''eleven_multilingual_v2'' of
           Inr audio \<Rightarrow> (Returns output_path, write_file output_path (Bytes audio) w2)
         | Inl e \<Rightarrow> (SysExit (ExitCode 1), print (Narration_error e) w2))"

subsection \<open>\<^verbatim>\<open>create_silent_base_video\<close>, lines 46 to 61\<close>

text \<open>Python's \<^verbatim>\<open>int\<close> of a float truncates towards zero.\<close>

definition py_int :: "real \<Rightarrow> int" where
  "py_int x = (if 0 \<le> x then \<lfloor>x\<rfloor> else \<lceil>x\<rceil>)"

definition target_aspect :: real where
  "target_aspect = of_int VIDEO_WIDTH / of_int VIDEO_HEIGHT"

text \<open>Lines 52 to 56: which crop is requested for an image of size \<open>(w, h)\<close>, \<open>h\<close> not zero.\<close>

definition choose_crop :: "nat \<times> nat \<Rightarrow> crop" where
  "choose_crop dims =
     (let w = fst dims; h = snd dims
      in if of_nat w / of_nat h > target_aspect
         then Crop_x (of_nat w / 2) (py_int (of_nat h * target_aspect))
         else Crop_y (of_nat h / 2) (py_int (of_nat w / target_aspect)))"

text \<open>
  The size of the clip that moviepy's \<^verbatim>\<open>crop\<close> returns (library code, version 1 of
  moviepy, the one with the \<^verbatim>\<open>moviepy.editor\<close> module the source imports): with
  \<^verbatim>\<open>x_center\<close> and \<^verbatim>\<open>width\<close> it keeps the columns from
  \<^verbatim>\<open>int(x_center - width / 2)\<close> up to \<^verbatim>\<open>int(x_center + width / 2)\<close> of the picture, all
  rows; likewise for the rows with \<^verbatim>\<open>y_center\<close> and \<^verbatim>\<open>height\<close>.
\<close>

definition kept :: "real \<Rightarrow> int \<Rightarrow> nat \<Rightarrow> nat" where
  "kept center extent limit =
     nat (min (py_int (center + of_int extent / 2)) (int limit)
          - max (py_int (center - of_int extent / 2)) 0)"

fun crop_size :: "nat \<times> nat \<Rightarrow> crop \<Rightarrow> nat \<times> nat" where
  "crop_size (w, h) (Crop_x x_center width) = (kept x_center width w, h)"
| "crop_size (w, h) (Crop_y y_center height) = (w, kept y_center height h)"

text \<open>
  The size after moviepy's \<^verbatim>\<open>resize(height=H)\<close> (library code): the new size is
  \<^verbatim>\<open>[w * H / h, H]\<close>, each made an integer with \<^verbatim>\<open>int\<close>.
\<close>

definition resize_height :: "nat \<times> nat \<Rightarrow> int \<Rightarrow> exn + nat \<times> nat" where
  "resize_height dims H =
     (if snd dims = 0 then Inl ZeroDivisionError
      else Inr (nat (py_int (of_nat (fst dims) * of_int H / of_nat (snd dims))), nat H))"

text \<open>Lines 51 to 58: the size of the clip that is written, from the size of the image.\<close>

definition base_clip_size :: "nat \<times> nat \<Rightarrow> exn + nat \<times> nat" where
  "base_clip_size dims =
     (if snd dims = 0 then Inl ZeroDivisionError
      else resize_height (crop_size dims (choose_crop dims)) VIDEO_HEIGHT)"

definition create_silent_base_video ::
  "'f libs \<Rightarrow> real \<Rightarrow> string \<Rightarrow> string \<Rightarrow> 'f world \<Rightarrow> unit result \<times> 'f world" where
  "create_silent_base_video lib duration background_path output_path w0 =
     (let w1 = print Creating_silent_video w0
      in case files w1 background_path of
           Some (Image dims pixels) \<Rightarrow>
             (case base_clip_size dims of
                Inl e \<Rightarrow> (Raises e, w1)
              | Inr out_size \<Rightarrow>
                  (case still_frames lib pixels dims (choose_crop dims) out_size duration of
                     Inl e \<Rightarrow> (Raises e, w1)
                   | Inr frames \<Rightarrow>
                       (Returns (),
                        print Silent_video_created
                          (write_file output_path (Video frames None) w1))))
         | _ \<Rightarrow> (Raises (FileNotFoundError background_path), w1))"

subsection \<open>\<^verbatim>\<open>get_word_timestamps\<close>, lines 63 to 69\<close>

text \<open>
  \<^verbatim>\<open>strip\<close> and \<^verbatim>\<open>upper\<close> on ASCII: the white space removed is the ASCII white space,
  and only the letters a to z change.
\<close>

definition is_space :: "char \<Rightarrow> bool" where
  "is_space c = (of_char c \<in> {9, 10, 11, 12, 13, 32 :: nat})"

definition strip :: "string \<Rightarrow> string" where
  "strip s = rev (dropWhile is_space (rev (dropWhile is_space s)))"

definition upper_char :: "char \<Rightarrow> char" where
  "upper_char c =
     (let n = of_char c :: nat in if 97 \<le> n \<and> n \<le> 122 then char_of (n - 32) else c)"

definition upper :: "string \<Rightarrow> string" where
  "upper s = map upper_char s"

definition get_word_timestamps ::
  "'f libs \<Rightarrow> string \<Rightarrow> 'f world \<Rightarrow> word_timing list result \<times> 'f world" where
  "get_word_timestamps lib audio_path w0 =
     (let w1 = print Generating_timestamps w0
      in case files w1 audio_path of
           Some (Bytes audio) \<Rightarrow>
             (case transcribe lib audio of
                Inl e \<Rightarrow> (Raises e, w1)
              | Inr segments \<Rightarrow>
                  (let word_info =
                         map (\<lambda>(wd, s, e). \<lparr>word = upper (strip wd), start = s, end' = e\<rparr>)
                           (concat segments)
                   in (Returns word_info, print (Found_words (length word_info)) w1)))
         | _ \<Rightarrow> (Raises (FileNotFoundError audio_path), w1))"

subsection \<open>\<^verbatim>\<open>draw_subtitles_on_video\<close>, lines 71 to 98\<close>

text \<open>
  The capture is opened first and yields the frames of the input file (none when the
  file is missing or is no video: \<^verbatim>\<open>isOpened\<close> is false and the loop body never runs);
  the writer then creates the output file and receives the frames of the loop. The
  frames are the ones handed to the writer, before its encoding.
\<close>

definition draw_subtitles_on_video ::
  "'f libs \<Rightarrow> string \<Rightarrow> string \<Rightarrow> word_timing list \<Rightarrow> 'f world \<Rightarrow> unit result \<times> 'f world" where
  "draw_subtitles_on_video lib input_video output_video word_timestamps w0 =
     (let w1 = print Drawing_subtitles w0;
          captured = (case files w1 input_video of
                        Some (Video frames audio) \<Rightarrow> frames
                      | _ \<Rightarrow> []);
          written = draw_subtitles_loop (opencv lib) word_timestamps 0 captured
      in (Returns (), print Subtitles_drawn (write_file output_video (Video written None) w1)))"

subsection \<open>\<^verbatim>\<open>main\<close>, lines 100 to 132\<close>

text \<open>\<^verbatim>\<open>os.path.exists\<close> and \<^verbatim>\<open>os.remove\<close>, which raises on a missing file.\<close>

definition os_path_exists :: "string \<Rightarrow> 'f world \<Rightarrow> bool" where
  "os_path_exists path w = (files w path \<noteq> None)"

definition os_remove :: "string \<Rightarrow> 'f world \<Rightarrow> unit result \<times> 'f world" where
  "os_remove path w =
     (if files w path = None then (Raises (FileNotFoundError path), w)
      else (Returns (), w\<lparr>files := (files w)(path := None)\<rparr>))"

definition remove_if_exists :: "string \<Rightarrow> 'f world \<Rightarrow> unit result \<times> 'f world" where
  "remove_if_exists path w =
     (if os_path_exists path w then os_remove path w else (Returns (), w))"

text \<open>Lines 128 to 130, the three statements of the cleanup step.\<close>

definition cleanup :: "string \<Rightarrow> 'f world \<Rightarrow> unit result \<times> 'f world" where
  "cleanup narration_audio_path w =
     and_then (remove_if_exists narration_audio_path w) (\<lambda>_ w.
     and_then (remove_if_exists TEMP_SILENT_VIDEO_FILE w) (\<lambda>_ w.
     remove_if_exists TEMP_SUBTITLED_VIDEO_FILE w))"

text \<open>\<^verbatim>\<open>open(INPUT_TEXT_FILE, 'r', encoding='utf-8').read()\<close>, line 105.\<close>

definition read_text :: "string \<Rightarrow> 'f world \<Rightarrow> string result \<times> 'f world" where
  "read_text path w =
     (case files w path of
        Some (Text s) \<Rightarrow> (Returns s, w)
      | Some other \<Rightarrow> (Raises (LibraryError ''UnicodeDecodeError''), w)
      | None \<Rightarrow> (Raises (FileNotFoundError path), w))"

text \<open>\<^verbatim>\<open>AudioFileClip(path)\<close>: the bytes of the audio file, lines 107 and 121.\<close>

definition audio_file_clip :: "string \<Rightarrow> 'f world \<Rightarrow> nat list result \<times> 'f world" where
  "audio_file_clip path w =
     (case files w path of
        Some (Bytes audio) \<Rightarrow> (Returns audio, w)
      | _ \<Rightarrow> (Raises (FileNotFoundError path), w))"

definition clip_duration :: "'f libs \<Rightarrow> nat list \<Rightarrow> 'f world \<Rightarrow> real result \<times> 'f world" where
  "clip_duration lib audio w =
     (case audio_duration lib audio of Inl e \<Rightarrow> (Raises e, w) | Inr d \<Rightarrow> (Returns d, w))"

text \<open>\<^verbatim>\<open>VideoFileClip(path)\<close>, line 120.\<close>

definition video_file_clip :: "string \<Rightarrow> 'f world \<Rightarrow> 'f list result \<times> 'f world" where
  "video_file_clip path w =
     (case files w path of
        Some (Video frames audio) \<Rightarrow> (Returns frames, w)
      | _ \<Rightarrow> (Raises (FileNotFoundError path), w))"

text \<open>Lines 122 and 123: the final video with the narration as its audio track.\<close>

definition write_final ::
  "'f libs \<Rightarrow> 'f list \<Rightarrow> nat list \<Rightarrow> string \<Rightarrow> 'f world \<Rightarrow> unit result \<times> 'f world" where
  "write_final lib frames audio path w =
     (case encode_final lib frames audio of
        Inl e \<Rightarrow> (Raises e, w)
      | Inr encoded \<Rightarrow> (Returns (), write_file path (Video encoded (Some audio)) w))"

definition main :: "string \<Rightarrow> 'f libs \<Rightarrow> 'f world \<Rightarrow> unit result \<times> 'f world" where
  "main api_key lib w0 =
     (let w1 = print Starting w0
      in if api_key = ''YOUR_ELEVENLABS_API_KEY''
         then (SysExit (ExitMessage ''Set API Key''), w1)
         else
           and_then (read_text INPUT_TEXT_FILE w1) (\<lambda>script_text w.
           and_then (generate_narration api_key lib script_text ''narration.mp3'' w)
             (\<lambda>narration_audio_path w.
           and_then (audio_file_clip narration_audio_path w) (\<lambda>narration w.
           and_then (clip_duration lib narration w) (\<lambda>narration_duration w.
           and_then (create_silent_base_video lib narration_duration
                       INPUT_BACKGROUND_FILE TEMP_SILENT_VIDEO_FILE w) (\<lambda>_ w.
           and_then (get_word_timestamps lib narration_audio_path w) (\<lambda>word_timestamps w.
           and_then (draw_subtitles_on_video lib TEMP_SILENT_VIDEO_FILE
                       TEMP_SUBTITLED_VIDEO_FILE word_timestamps w) (\<lambda>_ w.
           and_then (video_file_clip TEMP_SUBTITLED_VIDEO_FILE (print Combining w))
             (\<lambda>subtitled_clip w.
           and_then (audio_file_clip narration_audio_path w) (\<lambda>original_audio w.
           and_then (write_final lib subtitled_clip original_audio OUTPUT_VIDEO_FILE w)
             (\<lambda>_ w.
           and_then (cleanup narration_audio_path (print Cleaning_up (print Combined w)))
             (\<lambda>_ w.
           (Returns (), print (Video_ready OUTPUT_VIDEO_FILE) w)))))))))))))"

subsection \<open>Libraries and a working directory to run the pipeline on\<close>

text \<open>
  An instance of the libraries over the glyph frames: the speech service accepts one
  key and answers every request alike, the still video has one frame for each
  twenty-fourth of a second, and the transcription is fixed.
\<close>

definition demo_libs :: "glyph list libs" where
  "demo_libs =
     \<lparr> opencv = glyph_cv2,
       generate = (\<lambda>n key text voice model.
                     if key = ''sk_demo'' then Inr [1, 2, 3]
                     else Inl (LibraryError ''invalid api key'')),
       audio_duration = (\<lambda>audio. Inr (1 / 8)),
       still_frames = (\<lambda>pixels dims c out_size duration.
                         Inr (replicate (nat \<lceil>duration * of_nat FPS\<rceil>) [])),
       transcribe = (\<lambda>audio. Inr [[('' hi'', 0, 1 / 16), ('' there'', 1 / 16, 1 / 8)]]),
       encode_final = (\<lambda>frames audio. Inr frames) \<rparr>"

definition demo_world :: "glyph list world" where
  "demo_world =
     \<lparr> files = [''script.txt'' \<mapsto> Text ''hi there'',
                ''background.jpg'' \<mapsto> Image (1920, 1080) []],
       stdout = [],
       requests = 0 \<rparr>"


section \<open>Properties of the subtitle renderer\<close>

lemma draw_subtitles_loop_length:
  "length (draw_subtitles_loop cv wts n frames) = length frames"
  by (induction frames arbitrary: n) simp_all

lemma draw_subtitles_loop_nth:
  "i < length frames \<Longrightarrow>
   draw_subtitles_loop cv wts n frames ! i = render_frame cv wts (n + i) (frames ! i)"
proof (induction frames arbitrary: n i)
  case Nil
  then show ?case by simp
next
  case (Cons f fs)
  show ?case
  proof (cases i)
    case 0
    then show ?thesis by simp
  next
    case (Suc j)
    with Cons.prems have "j < length fs" by simp
    from Cons.IH [OF this, of "n + 1"] Suc show ?thesis by simp
  qed
qed

lemma find_active_word_none:
  "(\<forall>w \<in> set wts. \<not> in_interval w t) \<Longrightarrow> find_active_word wts t = None"
  by (induction wts) simp_all

lemma find_active_word_first:
  "k < length wts \<Longrightarrow> in_interval (wts ! k) t \<Longrightarrow> (\<forall>j<k. \<not> in_interval (wts ! j) t) \<Longrightarrow>
   find_active_word wts t = Some (word (wts ! k))"
proof (induction wts arbitrary: k)
  case Nil
  then show ?case by simp
next
  case (Cons w ws)
  show ?case
  proof (cases k)
    case 0
    with Cons.prems show ?thesis by simp
  next
    case (Suc m)
    with Cons.prems have m: "m < length ws" "in_interval (ws ! m) t" by simp_all
    from Cons.prems(3) Suc have "\<not> in_interval ((w # ws) ! 0) t" by blast
    then have w: "\<not> in_interval w t" by simp
    have "\<forall>j<m. \<not> in_interval (ws ! j) t"
    proof (intro allI impI)
      fix j assume "j < m"
      then have "Suc j < k" using Suc by simp
      with Cons.prems(3) have "\<not> in_interval ((w # ws) ! Suc j) t" by blast
      then show "\<not> in_interval (ws ! j) t" by simp
    qed
    from Cons.IH [OF m this] w Suc show ?thesis by simp
  qed
qed

lemma find_active_word_skip:
  "\<not> in_interval w t \<Longrightarrow> find_active_word (pre @ w # post) t = find_active_word (pre @ post) t"
  by (induction pre) simp_all


lemma render_frame_cong:
  "find_active_word wts t = find_active_word wts' t \<Longrightarrow> t = current_time_of n \<Longrightarrow>
   render_frame cv wts n frame = render_frame cv wts' n frame"
  by (simp add: render_frame_def)

lemma draw_subtitles_loop_cong:
  "(\<And>t. find_active_word wts t = find_active_word wts' t) \<Longrightarrow>
   draw_subtitles_loop cv wts n frames = draw_subtitles_loop cv wts' n frames"
  by (induction frames arbitrary: n) (simp_all add: render_frame_def)


text \<open>
  Claim C3. When the timestamp of frame \<open>i\<close> is outside the interval of every record,
  the frame handed to the writer is the frame read; and with the empty word-timing
  sequence the frames written are the frames read.
\<close>

theorem no_active_word_frame_unmodified:
  "i < length frames \<Longrightarrow> (\<forall>w \<in> set wts. \<not> in_interval w (current_time_of i)) \<Longrightarrow>
   draw_subtitles_loop cv wts 0 frames ! i = frames ! i
   \<and> draw_subtitles_loop cv [] 0 frames = frames"
proof -
  assume i: "i < length frames"
    and out: "\<forall>w \<in> set wts. \<not> in_interval w (current_time_of i)"
  have "render_frame cv wts i (frames ! i) = frames ! i"
    using find_active_word_none [OF out] by (simp add: render_frame_def)
  then have one: "draw_subtitles_loop cv wts 0 frames ! i = frames ! i"
    using draw_subtitles_loop_nth [OF i, of cv wts 0] by simp
  have "draw_subtitles_loop cv [] n fs = fs" for n and fs :: "'a list"
    by (induction fs arbitrary: n) (simp_all add: render_frame_def)
  with one show ?thesis by simp
qed

theorem no_active_word_frame_unmodified_witness:
  "(1::nat) < length [[], [] :: glyph list]
   \<and> \<not> in_interval \<lparr>word = ''HELLO'', start = 1, end' = 2\<rparr> (current_time_of 1)
   \<and> draw_subtitles_loop glyph_cv2 [\<lparr>word = ''HELLO'', start = 1, end' = 2\<rparr>] 0 [[], []] ! 1
       = [[], []] ! 1
   \<and> draw_subtitles_loop glyph_cv2 [] 0 [[], []] = [[], []]"
proof -
  have h: "\<forall>w \<in> set [\<lparr>word = ''HELLO'', start = 1, end' = 2\<rparr>]. \<not> in_interval w (current_time_of 1)"
    by (simp add: in_interval_def current_time_of_def FPS_def)
  have l: "(1::nat) < length [[], [] :: glyph list]" by simp
  from no_active_word_frame_unmodified [OF l h, of glyph_cv2] h l show ?thesis by simp
qed

text \<open>
  Claim C4. A record whose \<open>start\<close> equals its \<open>end\<close> is active at no timestamp: its
  interval test fails for every \<open>t\<close>, the scan gives the same answer with the record
  removed from the sequence, and so do the frames written.
\<close>

theorem empty_interval_never_active:
  "start w = end' w \<Longrightarrow>
   \<not> in_interval w t
   \<and> find_active_word (pre @ w # post) t = find_active_word (pre @ post) t
   \<and> draw_subtitles_loop cv (pre @ w # post) 0 frames = draw_subtitles_loop cv (pre @ post) 0 frames"
proof -
  assume eq: "start w = end' w"
  have never: "\<not> in_interval w u" for u
    using eq by (simp add: in_interval_def)
  have scan: "find_active_word (pre @ w # post) u = find_active_word (pre @ post) u" for u
    by (rule find_active_word_skip [OF never])
  from never scan draw_subtitles_loop_cong [of "pre @ w # post" "pre @ post" cv 0 frames]
  show ?thesis by simp
qed

theorem empty_interval_never_active_witness:
  "start \<lparr>word = ''HELLO'', start = 1 / 2, end' = 1 / 2\<rparr> = end' \<lparr>word = ''HELLO'', start = 1 / 2, end' = 1 / 2\<rparr>
   \<and> \<not> in_interval \<lparr>word = ''HELLO'', start = 1 / 2, end' = 1 / 2\<rparr> (current_time_of 12)
   \<and> find_active_word ([] @ \<lparr>word = ''HELLO'', start = 1 / 2, end' = 1 / 2\<rparr> # []) (current_time_of 12) = None
   \<and> draw_subtitles_loop glyph_cv2 ([] @ \<lparr>word = ''HELLO'', start = 1 / 2, end' = 1 / 2\<rparr> # []) 0 [[]] = [[]]"
  using empty_interval_never_active
    [of "\<lparr>word = ''HELLO'', start = 1 / 2, end' = 1 / 2\<rparr>" "current_time_of 12" "[]" "[]" glyph_cv2 "[[]]"]
  by (simp add: render_frame_def)


lemma render_frame_first_match:
  assumes "k < length wts" and "in_interval (wts ! k) (current_time_of n)"
    and "\<forall>j<k. \<not> in_interval (wts ! j) (current_time_of n)"
  shows "render_frame cv wts n frame =
           (if word (wts ! k) \<noteq> [] then draw_word cv (word (wts ! k)) frame else frame)"
  using find_active_word_first [OF assms] by (simp add: render_frame_def)

text \<open>
  Claim C9. When the record matched for frame \<open>i\<close> (the first one whose interval holds
  the timestamp) has the empty string as its word, the scan does return that empty word,
  the truth test of line 87 fails on it, and the frame is written as it was read.
\<close>

theorem empty_word_frame_unmodified:
  "i < length frames \<Longrightarrow> k < length wts \<Longrightarrow> in_interval (wts ! k) (current_time_of i) \<Longrightarrow>
   (\<forall>j<k. \<not> in_interval (wts ! j) (current_time_of i)) \<Longrightarrow> word (wts ! k) = [] \<Longrightarrow>
   find_active_word wts (current_time_of i) = Some []
   \<and> draw_subtitles_loop cv wts 0 frames ! i = frames ! i"
proof -
  assume i: "i < length frames" and k: "k < length wts"
    and inside: "in_interval (wts ! k) (current_time_of i)"
    and first: "\<forall>j<k. \<not> in_interval (wts ! j) (current_time_of i)"
    and empty: "word (wts ! k) = []"
  have "find_active_word wts (current_time_of i) = Some []"
    using find_active_word_first [OF k inside first] empty by simp
  moreover have "render_frame cv wts i (frames ! i) = frames ! i"
    using render_frame_first_match [OF k inside first, of cv "frames ! i"] empty by simp
  ultimately show ?thesis
    using draw_subtitles_loop_nth [OF i, of cv wts 0] by simp
qed

theorem empty_word_frame_unmodified_witness:
  "(0::nat) < length [[] :: glyph list]
   \<and> (0::nat) < length [\<lparr>word = [], start = 0, end' = 1\<rparr>]
   \<and> in_interval ([\<lparr>word = [], start = 0, end' = 1\<rparr>] ! 0) (current_time_of 0)
   \<and> word ([\<lparr>word = [], start = 0, end' = 1\<rparr>] ! 0) = []
   \<and> find_active_word [\<lparr>word = [], start = 0, end' = 1\<rparr>] (current_time_of 0) = Some []
   \<and> draw_subtitles_loop glyph_cv2 [\<lparr>word = [], start = 0, end' = 1\<rparr>] 0 [[]] ! 0 = [[]] ! 0"
proof -
  have a: "(0::nat) < length [[] :: glyph list]" by simp
  have b: "(0::nat) < length [\<lparr>word = [], start = 0, end' = 1\<rparr>]" by simp
  have c: "in_interval ([\<lparr>word = [], start = 0, end' = 1\<rparr>] ! 0) (current_time_of 0)"
    by (simp add: in_interval_def current_time_of_def)
  have d: "\<forall>j<0::nat. \<not> in_interval ([\<lparr>word = [], start = 0, end' = 1\<rparr>] ! j) (current_time_of 0)"
    by simp
  have e: "word ([\<lparr>word = [], start = 0, end' = 1\<rparr>] ! 0) = []" by simp
  from empty_word_frame_unmodified [OF a b c d e, of glyph_cv2] a b c e show ?thesis by blast
qed







section \<open>Properties of the pipeline\<close>

lemmas constant_defs =
  VIDEO_WIDTH_def VIDEO_HEIGHT_def FPS_def ELEVENLABS_API_KEY_def INPUT_TEXT_FILE_def
  INPUT_BACKGROUND_FILE_def OUTPUT_VIDEO_FILE_def TEMP_SILENT_VIDEO_FILE_def
  TEMP_SUBTITLED_VIDEO_FILE_def VOICE_NAME_def


lemma files_print [simp]: "files (print m w) = files w"
  by (simp add: print_def)

lemma and_then_Returns:
  "and_then m f = (Returns y, w') \<Longrightarrow> \<exists>x w. m = (Returns x, w) \<and> f x w = (Returns y, w')"
  by (auto simp: and_then_def split: prod.splits result.splits)

lemma and_then_SysExit:
  "and_then m f = (SysExit a, w') \<Longrightarrow>
   m = (SysExit a, w') \<or> (\<exists>x w. m = (Returns x, w) \<and> f x w = (SysExit a, w'))"
  by (auto simp: and_then_def split: prod.splits result.splits)

lemma remove_if_exists_eq:
  "remove_if_exists path w = (Returns (), w\<lparr>files := (files w)(path := None)\<rparr>)"
proof (cases "files w path = None")
  case True
  then have "(files w)(path := None) = files w" by (simp add: fun_eq_iff)
  with True show ?thesis by (simp add: remove_if_exists_def os_path_exists_def)
next
  case False
  then show ?thesis by (simp add: remove_if_exists_def os_path_exists_def os_remove_def)
qed

lemma cleanup_eq:
  "cleanup p w =
     (Returns (),
      w\<lparr>files := (files w)(p := None, TEMP_SILENT_VIDEO_FILE := None,
                            TEMP_SUBTITLED_VIDEO_FILE := None)\<rparr>)"
  by (simp add: cleanup_def remove_if_exists_eq and_then_def)





lemma main_exit_code:
  assumes "api_key \<noteq> ''YOUR_ELEVENLABS_API_KEY''"
    and "main api_key lib w0 = (SysExit a, w')"
  shows "a = ExitCode 1"
  using assms unfolding main_def Let_def
  by (auto dest!: and_then_SysExit and_then_Returns
      simp: read_text_def generate_narration_def audio_file_clip_def clip_duration_def
        create_silent_base_video_def get_word_timestamps_def draw_subtitles_on_video_def
        video_file_clip_def write_final_def cleanup_eq Let_def
      split: option.splits content.splits sum.splits if_splits)

text \<open>
  Claim C1. With the key the source ships with, the guard of line 102 is not taken:
  the guard compares with another string. The run never leaves through the early exit;
  on the demonstration directory it reads the script, sends a request to the speech
  service and leaves through the handler of \<^verbatim>\<open>generate_narration\<close>. The early exit is
  taken when the key is the string of the guard.
\<close>

theorem shipped_key_passes_guard:
  "ELEVENLABS_API_KEY \<noteq> ''YOUR_ELEVENLABS_API_KEY''
   \<and> fst (main ELEVENLABS_API_KEY lib w) \<noteq> SysExit (ExitMessage ''Set API Key'')
   \<and> fst (main ELEVENLABS_API_KEY demo_libs demo_world) = SysExit (ExitCode 1)
   \<and> requests (snd (main ELEVENLABS_API_KEY demo_libs demo_world)) = 1
   \<and> main ''YOUR_ELEVENLABS_API_KEY'' lib w = (SysExit (ExitMessage ''Set API Key''), print Starting w)"
proof -
  have key: "ELEVENLABS_API_KEY \<noteq> ''YOUR_ELEVENLABS_API_KEY''"
    by (simp add: ELEVENLABS_API_KEY_def)
  have "fst (main ELEVENLABS_API_KEY lib w) \<noteq> SysExit (ExitMessage ''Set API Key'')"
  proof
    assume "fst (main ELEVENLABS_API_KEY lib w) = SysExit (ExitMessage ''Set API Key'')"
    then have "main ELEVENLABS_API_KEY lib w
                 = (SysExit (ExitMessage ''Set API Key''), snd (main ELEVENLABS_API_KEY lib w))"
      by (simp add: prod_eq_iff)
    from main_exit_code [OF key this] show False by simp
  qed
  moreover have "main ELEVENLABS_API_KEY demo_libs demo_world
      = (SysExit (ExitCode 1),
         \<lparr>files = files demo_world,
          stdout = [Starting, Generating_narration, Narration_error (LibraryError ''invalid api key'')],
          requests = 1\<rparr>)"
    by (simp add: main_def and_then_def read_text_def generate_narration_def print_def
        demo_libs_def demo_world_def constant_defs Let_def)
  moreover have "main ''YOUR_ELEVENLABS_API_KEY'' lib w
                   = (SysExit (ExitMessage ''Set API Key''), print Starting w)"
    by (simp add: main_def)
  ultimately show ?thesis using key by simp
qed

text \<open>
  Claim C5. For a background of 1920 by 1080 the crop requested is the one on the
  width, centred at 960 and 607 wide (\<open>1080 * 0.5625 = 607.5\<close>, truncated); the cropped
  clip is 607 by 1080, and resizing it to the height 1920 gives the width
  \<open>int(607 * 1920 / 1080) = 1079\<close>: the clip written is 1079 by 1920.
\<close>

theorem landscape_background_size:
  "choose_crop (1920, 1080) = Crop_x 960 607
   \<and> crop_size (1920, 1080) (choose_crop (1920, 1080)) = (607, 1080)
   \<and> base_clip_size (1920, 1080) = Inr (1079, 1920)
   \<and> (int 1079, int 1920) \<noteq> (VIDEO_WIDTH, VIDEO_HEIGHT)"
  by (simp add: base_clip_size_def resize_height_def choose_crop_def target_aspect_def
      VIDEO_WIDTH_def VIDEO_HEIGHT_def py_int_def kept_def Let_def)

lemma choose_crop_wide:
  "real w / real h > target_aspect \<Longrightarrow>
   choose_crop (w, h) = Crop_x (real w / 2) (py_int (real h * target_aspect))"
  by (simp add: choose_crop_def Let_def)

lemma choose_crop_narrow:
  "\<not> real w / real h > target_aspect \<Longrightarrow>
   choose_crop (w, h) = Crop_y (real h / 2) (py_int (real w / target_aspect))"
  by (simp add: choose_crop_def Let_def)




lemma os_remove_missing:
  "files w path = None \<Longrightarrow> os_remove path w = (Raises (FileNotFoundError path), w)"
  by (simp add: os_remove_def)





text \<open>
  Claim C8. The frames written depend on the input video and the word-timing sequence
  only: two runs in working directories that agree on the input video write the same
  output file, whatever else differs, and the call always returns. In particular a
  second run after the first writes the same output again, the input being another file
  than the output.
\<close>

theorem rendering_repeatable:
  "files w1 input_video = files w2 input_video \<Longrightarrow>
   fst (draw_subtitles_on_video lib input_video output_video wts w1) = Returns ()
   \<and> files (snd (draw_subtitles_on_video lib input_video output_video wts w1)) output_video
       = files (snd (draw_subtitles_on_video lib input_video output_video wts w2)) output_video
   \<and> (input_video \<noteq> output_video \<longrightarrow>
        files (snd (draw_subtitles_on_video lib input_video output_video wts
                 (snd (draw_subtitles_on_video lib input_video output_video wts w1))))
          = files (snd (draw_subtitles_on_video lib input_video output_video wts w1)))"
  by (simp add: draw_subtitles_on_video_def print_def write_file_def Let_def)


theorem rendering_repeatable_witness:
  "files (write_file TEMP_SILENT_VIDEO_FILE (Video [[], []] None) demo_world) TEMP_SILENT_VIDEO_FILE
     = files (print Starting (write_file TEMP_SILENT_VIDEO_FILE (Video [[], []] None) demo_world))
         TEMP_SILENT_VIDEO_FILE
   \<and> TEMP_SILENT_VIDEO_FILE \<noteq> TEMP_SUBTITLED_VIDEO_FILE
   \<and> fst (draw_subtitles_on_video demo_libs TEMP_SILENT_VIDEO_FILE TEMP_SUBTITLED_VIDEO_FILE
          [\<lparr>word = ''HI'', start = 0, end' = 1\<rparr>]
          (write_file TEMP_SILENT_VIDEO_FILE (Video [[], []] None) demo_world)) = Returns ()
   \<and> files (snd (draw_subtitles_on_video demo_libs TEMP_SILENT_VIDEO_FILE TEMP_SUBTITLED_VIDEO_FILE
          [\<lparr>word = ''HI'', start = 0, end' = 1\<rparr>]
          (write_file TEMP_SILENT_VIDEO_FILE (Video [[], []] None) demo_world)))
        TEMP_SUBTITLED_VIDEO_FILE
     = files (snd (draw_subtitles_on_video demo_libs TEMP_SILENT_VIDEO_FILE TEMP_SUBTITLED_VIDEO_FILE
          [\<lparr>word = ''HI'', start = 0, end' = 1\<rparr>]
          (print Starting (write_file TEMP_SILENT_VIDEO_FILE (Video [[], []] None) demo_world))))
        TEMP_SUBTITLED_VIDEO_FILE
   \<and> files (snd (draw_subtitles_on_video demo_libs TEMP_SILENT_VIDEO_FILE TEMP_SUBTITLED_VIDEO_FILE
          [\<lparr>word = ''HI'', start = 0, end' = 1\<rparr>]
          (snd (draw_subtitles_on_video demo_libs TEMP_SILENT_VIDEO_FILE TEMP_SUBTITLED_VIDEO_FILE
             [\<lparr>word = ''HI'', start = 0, end' = 1\<rparr>]
             (write_file TEMP_SILENT_VIDEO_FILE (Video [[], []] None) demo_world)))))
     = files (snd (draw_subtitles_on_video demo_libs TEMP_SILENT_VIDEO_FILE TEMP_SUBTITLED_VIDEO_FILE
          [\<lparr>word = ''HI'', start = 0, end' = 1\<rparr>]
          (write_file TEMP_SILENT_VIDEO_FILE (Video [[], []] None) demo_world)))"
proof -
  let ?w1 = "write_file TEMP_SILENT_VIDEO_FILE (Video [[], []] None) demo_world"
  have same: "files ?w1 TEMP_SILENT_VIDEO_FILE = files (print Starting ?w1) TEMP_SILENT_VIDEO_FILE"
    by simp
  have other: "TEMP_SILENT_VIDEO_FILE \<noteq> TEMP_SUBTITLED_VIDEO_FILE"
    by (simp add: constant_defs)
  from rendering_repeatable [OF same, of demo_libs TEMP_SUBTITLED_VIDEO_FILE
         "[\<lparr>word = ''HI'', start = 0, end' = 1\<rparr>]"] same other
  show ?thesis by simp
qed

end
